theory Spec2Isabelle
  imports Main "HOL-Library.Word"
begin

section \<open>Data model\<close>

text \<open>
  The Python module \<open>mitsubishi.py\<close> builds and decodes ECHONET Lite frames and runs the
  discovery exchange. Python integers are unbounded (\<open>int\<close>); the elements of a
  \<open>bytes\<close> object are 8-bit values. Exceptions are values of \<open>error\<close>;
  \<open>SystemExit\<close> is what \<open>quit()\<close> raises: the process ends.
\<close>

type_synonym byte = "8 word"

datatype error = SystemExit | ValueError | KeyError | IndexError | OSError

text \<open>
  The request dict handed to \<open>BuildEchonetMsg\<close>. A key the dict may lack is an
  \<open>option\<close>; reading a missing key raises \<open>KeyError\<close>. An entry of the \<open>OPC\<close>
  list is a dict with keys \<open>EPC\<close>, \<open>PDC\<close> and \<open>EDT\<close>, all integers. Keys that the
  code never reads are the extension slot of the record scheme.
\<close>

record opc_entry =
  EPC :: "int option"
  PDC :: "int option"
  EDT :: "int option"

record request =
  TID :: "int option"
  DEOJGC :: "int option"
  DEOJCC :: "int option"
  DEOJIC :: "int option"
  ESV :: "int option"
  OPC :: "opc_entry list option"

text \<open>
  The lookup tables of the modules \<open>eojx\<close>, \<open>esv\<close> and \<open>epc\<close> live outside
  \<open>mitsubishi.py\<close>; the functions take them as a parameter. \<open>GROUP\<close>, \<open>CODES\<close>,
  \<open>EHD1\<close> and \<open>EHD2\<close> are used for key membership only; \<open>CLASS\<close> is indexed by
  the group code and then tested for membership.
\<close>

record registry =
  GROUP :: "int set"
  CLASS :: "int \<rightharpoonup> int set"
  CODES :: "int set"
  EHD1 :: "int set"
  EHD2 :: "int set"

section \<open>Hexadecimal text\<close>

text \<open>\<open>format(message, 'x')\<close>: lower-case hexadecimal without leading zeros, a minus
  sign first for a negative number.\<close>

definition hexdigit :: "nat \<Rightarrow> char" where
  "hexdigit d = ''0123456789abcdef'' ! d"

fun hex_of_nat :: "nat \<Rightarrow> string" where
  "hex_of_nat n = (if n < 16 then [hexdigit n] else hex_of_nat (n div 16) @ [hexdigit (n mod 16)])"

declare hex_of_nat.simps [simp del]

definition format_x :: "int \<Rightarrow> string" where
  "format_x m = (if m < 0 then CHR ''-'' # hex_of_nat (nat (- m)) else hex_of_nat (nat m))"

text \<open>\<open>bytearray.fromhex\<close>: two hexadecimal digits per byte, ASCII whitespace between
  bytes is skipped, anything else is a \<open>ValueError\<close>.\<close>

definition hexval :: "char \<Rightarrow> nat option" where
  "hexval c =
     (let n = (of_char c :: nat) in
      if 48 \<le> n \<and> n \<le> 57 then Some (n - 48)
      else if 97 \<le> n \<and> n \<le> 102 then Some (n - 87)
      else if 65 \<le> n \<and> n \<le> 70 then Some (n - 55)
      else None)"

definition is_space :: "char \<Rightarrow> bool" where
  "is_space c = ((of_char c :: nat) = 32 \<or> (9 \<le> (of_char c :: nat) \<and> (of_char c :: nat) \<le> 13))"

fun fromhex :: "string \<Rightarrow> error + byte list" where
  "fromhex [] = Inr []"
| "fromhex [c] = (if is_space c then Inr [] else Inl ValueError)"
| "fromhex (c # d # rest) =
     (if is_space c then fromhex (d # rest)
      else case hexval c of
        None \<Rightarrow> Inl ValueError
      | Some h \<Rightarrow>
         (case hexval d of
            None \<Rightarrow> Inl ValueError
          | Some l \<Rightarrow>
             (case fromhex rest of
                Inl e \<Rightarrow> Inl e
              | Inr bs \<Rightarrow> Inr (word_of_nat (16 * h + l) # bs))))"

section \<open>BuildEchonetMsg\<close>

text \<open>
  The body of the \<open>for values in data['OPC']\<close> loop. \<open>message << n\<close> on a Python
  integer is \<open>push_bit n message\<close>.
\<close>

definition opc_append :: "int \<Rightarrow> opc_entry \<Rightarrow> error + int" where
  "opc_append message values =
     (case EPC values of
        None \<Rightarrow> Inl KeyError
      | Some epc \<Rightarrow>
         (let message = push_bit 8 message + epc in
          case PDC values of
            Some pdc \<Rightarrow>
             (let message = push_bit 8 message + pdc in
              if pdc > 0 then
                (case EDT values of
                   None \<Rightarrow> Inl KeyError
                 | Some edt \<Rightarrow> Inr (push_bit (nat (8 * pdc)) message + edt))
              else Inr message)
          | None \<Rightarrow> Inr (push_bit 8 message + 0x00)))"

fun opc_loop :: "int \<Rightarrow> opc_entry list \<Rightarrow> error + int" where
  "opc_loop message [] = Inr message"
| "opc_loop message (values # rest) =
     (case opc_append message values of
        Inl e \<Rightarrow> Inl e
      | Inr message' \<Rightarrow> opc_loop message' rest)"

text \<open>The statements of the \<open>try\<close> block after the transaction id has been settled
  (\<open>tid\<close> is \<open>data['TID']\<close> at that point).\<close>

definition build_message :: "registry \<Rightarrow> 'a request_scheme \<Rightarrow> int \<Rightarrow> error + string" where
  "build_message reg data tid =
     (let message = 0x1081;
          message = push_bit 16 message + tid;
          message = push_bit 24 message + 0x05FF01
      in case DEOJGC data of
        None \<Rightarrow> Inl KeyError
      | Some gc \<Rightarrow>
         if gc \<in> GROUP reg then
           (let message = push_bit 8 message + gc
            in case DEOJCC data of
              None \<Rightarrow> Inl KeyError
            | Some cc \<Rightarrow>
               (case CLASS reg gc of
                  None \<Rightarrow> Inl KeyError
                | Some classes \<Rightarrow>
                   if cc \<in> classes then
                     (let message = push_bit 8 message + cc
                      in case DEOJIC data of
                        None \<Rightarrow> Inl KeyError
                      | Some ic \<Rightarrow>
                         (let message = push_bit 8 message + ic
                          in case ESV data of
                            None \<Rightarrow> Inl KeyError
                          | Some sv \<Rightarrow>
                             if sv \<in> CODES reg then
                               (let message = push_bit 8 message + sv
                                in case OPC data of
                                  None \<Rightarrow> Inl KeyError
                                | Some opc \<Rightarrow>
                                   (let message = push_bit 8 message + int (length opc)
                                    in case opc_loop message opc of
                                      Inl e \<Rightarrow> Inl e
                                    | Inr message' \<Rightarrow> Inr (format_x message')))
                             else Inl ValueError))
                   else Inl ValueError))
         else Inl ValueError)"

text \<open>The \<open>try\<close> block: the default transaction id is written into the caller's dict,
  so the dict is part of the result.\<close>

definition BuildEchonetMsg_try ::
  "registry \<Rightarrow> 'a request_scheme \<Rightarrow> (error + string) \<times> 'a request_scheme" where
  "BuildEchonetMsg_try reg data =
     (case TID data of
        None \<Rightarrow> (let data' = data\<lparr>TID := Some 0x01\<rparr> in (build_message reg data' 0x01, data'))
      | Some tid \<Rightarrow>
         if tid > 0xFFFF then (Inl ValueError, data)
         else (build_message reg data tid, data))"

text \<open>\<open>except ValueError\<close>: the error is printed and \<open>quit()\<close> ends the process. Any
  other exception leaves the function as it is.\<close>

definition BuildEchonetMsg ::
  "registry \<Rightarrow> 'a request_scheme \<Rightarrow> (error + string) \<times> 'a request_scheme" where
  "BuildEchonetMsg reg data =
     (case BuildEchonetMsg_try reg data of
        (Inl ValueError, data') \<Rightarrow> (Inl SystemExit, data')
      | r \<Rightarrow> r)"

text \<open>The request that \<open>Discover\<close> builds.\<close>

definition tx_payload :: request where
  "tx_payload = \<lparr>TID = Some 0x01, DEOJGC = Some 0x0E, DEOJCC = Some 0xF0, DEOJIC = Some 0x00,
     ESV = Some 0x62, OPC = Some [\<lparr>EPC = Some 0xD6, PDC = None, EDT = None\<rparr>]\<rparr>"

section \<open>DecodeEchonetMsg\<close>

text \<open>
  The dict that \<open>DecodeEchonetMsg\<close> returns has the keys \<open>EHD1\<close>, \<open>EHD2\<close>,
  \<open>TID\<close>, \<open>SEOJGC\<close>, \<open>SEOJCC\<close>, \<open>SEOJIC\<close>, \<open>DEOJGC\<close>, \<open>DEOJCC\<close>,
  \<open>DEOJIC\<close>, \<open>ESV\<close> and \<open>OPC\<close>; \<open>Discover\<close> adds \<open>instance\<close>. Its fields
  carry the prefix \<open>rx_\<close> (the name of the variable holding it in \<open>Discover\<close>) to keep
  them apart from the keys of the request dict. \<open>EDT\<close> here is a \<open>bytes\<close> slice.
\<close>

record rx_entry =
  rx_EPC :: int
  rx_PDC :: int
  rx_EDT :: "byte list"

record rx_frame =
  rx_EHD1 :: int
  rx_EHD2 :: int
  rx_TID :: int
  rx_SEOJGC :: int
  rx_SEOJCC :: int
  rx_SEOJIC :: int
  rx_DEOJGC :: int
  rx_DEOJCC :: int
  rx_DEOJIC :: int
  rx_ESV :: int
  rx_OPC :: "rx_entry list"
  rx_instance :: "int option"

text \<open>\<open>byte[i]\<close> raises \<open>IndexError\<close> out of range; the slice \<open>byte[a:b]\<close> never
  raises and is cut at the end of the input. All indices here are non-negative.\<close>

definition byte_at :: "byte list \<Rightarrow> nat \<Rightarrow> error + int" where
  "byte_at byte i = (if i < length byte then Inr (uint (byte ! i)) else Inl IndexError)"

definition byte_slice :: "byte list \<Rightarrow> nat \<Rightarrow> nat \<Rightarrow> byte list" where
  "byte_slice byte a b = take (b - a) (drop a byte)"

text \<open>\<open>int.from_bytes(bs, byteorder='big')\<close>.\<close>

definition int_from_bytes :: "byte list \<Rightarrow> int" where
  "int_from_bytes bs = foldl (\<lambda>acc b. acc * 256 + uint b) 0 bs"

text \<open>The \<open>while i < byte[11]\<close> loop; \<open>opc\<close> is \<open>data['OPC']\<close>.\<close>

function decode_opc :: "byte list \<Rightarrow> nat \<Rightarrow> nat \<Rightarrow> rx_entry list \<Rightarrow> error + rx_entry list" where
  "decode_opc byte i epc_pointer opc =
     (case byte_at byte 11 of
        Inl e \<Rightarrow> Inl e
      | Inr n \<Rightarrow>
         if int i < n then
           (let pdc_pointer = epc_pointer + 1;
                edt_pointer = pdc_pointer + 1
            in case byte_at byte epc_pointer of
              Inl e \<Rightarrow> Inl e
            | Inr epc \<Rightarrow>
               (case byte_at byte pdc_pointer of
                  Inl e \<Rightarrow> Inl e
                | Inr pdc_len \<Rightarrow>
                   (let end_pointer = edt_pointer + nat pdc_len;
                        entry = \<lparr>rx_EPC = epc, rx_PDC = pdc_len,
                                 rx_EDT = byte_slice byte edt_pointer end_pointer\<rparr>
                    in decode_opc byte (i + 1) end_pointer (opc @ [entry]))))
         else Inr opc)"
  by pat_completeness auto
termination
  by (relation "measure (\<lambda>(byte, i, epc_pointer, opc). nat (uint (byte ! 11) - int i))")
     (auto simp: byte_at_def split: if_splits)

declare decode_opc.simps [simp del]

definition DecodeEchonetMsg_try :: "registry \<Rightarrow> byte list \<Rightarrow> error + rx_frame" where
  "DecodeEchonetMsg_try reg byte =
     (case byte_at byte 0 of Inl e \<Rightarrow> Inl e | Inr ehd1 \<Rightarrow>
     (if ehd1 \<notin> EHD1 reg then Inl ValueError else
     (case byte_at byte 1 of Inl e \<Rightarrow> Inl e | Inr ehd2 \<Rightarrow>
     (if ehd2 \<notin> EHD2 reg then Inl ValueError else
     (let tid = int_from_bytes (byte_slice byte 2 4) in
     (case byte_at byte 4 of Inl e \<Rightarrow> Inl e | Inr seojgc \<Rightarrow>
     (case byte_at byte 5 of Inl e \<Rightarrow> Inl e | Inr seojcc \<Rightarrow>
     (case byte_at byte 6 of Inl e \<Rightarrow> Inl e | Inr seojic \<Rightarrow>
     (case byte_at byte 7 of Inl e \<Rightarrow> Inl e | Inr deojgc \<Rightarrow>
     (case byte_at byte 8 of Inl e \<Rightarrow> Inl e | Inr deojcc \<Rightarrow>
     (case byte_at byte 9 of Inl e \<Rightarrow> Inl e | Inr deojic \<Rightarrow>
     (case byte_at byte 10 of Inl e \<Rightarrow> Inl e | Inr sv \<Rightarrow>
     (case decode_opc byte 0 12 [] of Inl e \<Rightarrow> Inl e | Inr opc \<Rightarrow>
      Inr \<lparr>rx_EHD1 = ehd1, rx_EHD2 = ehd2, rx_TID = tid,
           rx_SEOJGC = seojgc, rx_SEOJCC = seojcc, rx_SEOJIC = seojic,
           rx_DEOJGC = deojgc, rx_DEOJCC = deojcc, rx_DEOJIC = deojic,
           rx_ESV = sv, rx_OPC = opc, rx_instance = None\<rparr>)))))))))))))"

text \<open>\<open>except ValueError\<close>: print and \<open>quit()\<close>. An \<open>IndexError\<close> is not caught.\<close>

definition DecodeEchonetMsg :: "registry \<Rightarrow> byte list \<Rightarrow> error + rx_frame" where
  "DecodeEchonetMsg reg byte =
     (case DecodeEchonetMsg_try reg byte of
        Inl ValueError \<Rightarrow> Inl SystemExit
      | r \<Rightarrow> r)"

section \<open>SendMessage\<close>

text \<open>
  The socket is the sequence of outcomes of the successive \<open>recvfrom(1024)\<close> calls: a
  datagram with its sender (cut to the 1024 bytes asked for), the timeout of 0.5 s, or
  another socket error. Opening,
  binding and configuring the socket and \<open>sendto\<close> itself are taken to succeed. The
  receive loop has no bound of its own, so it is a partial function: \<open>None\<close> is a loop
  that never ends.
\<close>

datatype recv_event = Packet "string \<times> nat" "byte list" | Timeout | RecvError

record reply =
  server :: "string \<times> nat"
  payload :: "byte list"

partial_function (option) recv_loop ::
  "(nat \<Rightarrow> recv_event) \<Rightarrow> nat \<Rightarrow> reply list \<Rightarrow> (error + reply list) option" where
  "recv_loop sock k data =
     (case sock k of
        Timeout \<Rightarrow> Some (Inr data)
      | RecvError \<Rightarrow> Some (Inl OSError)
      | Packet srv datagram \<Rightarrow>
          recv_loop sock (Suc k) (data @ [\<lparr>server = srv, payload = take 1024 datagram\<rparr>]))"

definition SendMessage ::
  "string \<Rightarrow> string \<Rightarrow> (nat \<Rightarrow> recv_event) \<Rightarrow> (error + reply list) option" where
  "SendMessage message ip_address sock =
     (case fromhex message of
        Inl e \<Rightarrow> Some (Inl e)
      | Inr sent \<Rightarrow> recv_loop sock 0 [])"

section \<open>Discover\<close>

text \<open>
  The table \<open>epc.CODE\<close> lives outside \<open>mitsubishi.py\<close>. \<open>Discover\<close> uses it twice:
  \<open>epc.CODE[gc][cc][epc][1]\<close> is a function from the property bytes to a dict with the
  keys \<open>eojgc\<close>, \<open>eojcc\<close> and \<open>eojci\<close>, and \<open>epc.CODE[gc][cc]['class']\<close> builds the
  device object from the decoded frame and the sender's address. Both are parameters; a
  missing table entry is a \<open>KeyError\<close>, and either function may raise.
\<close>

record identity =
  eojgc :: int
  eojcc :: int
  eojci :: int

record 'dev epc_CODE =
  CODE_property :: "int \<Rightarrow> int \<Rightarrow> int \<Rightarrow> (byte list \<Rightarrow> error + identity) option"
  CODE_class :: "int \<Rightarrow> int \<Rightarrow> (rx_frame \<Rightarrow> string \<Rightarrow> error + 'dev) option"

definition ENL_MULTICAST_ADDRESS :: string where
  "ENL_MULTICAST_ADDRESS = ''224.0.23.0''"

text \<open>The body of \<open>for node in data\<close>: \<open>Inr None\<close> when the reply is skipped,
  \<open>Inr (Some e)\<close> when \<open>e\<close> is appended to \<open>eoa\<close>. The \<open>and\<close> chain evaluates
  left to right and stops at the first false operand.\<close>

definition discover_node ::
  "'dev epc_CODE \<Rightarrow> registry \<Rightarrow> request \<Rightarrow> reply \<Rightarrow> error + 'dev option" where
  "discover_node tab reg tx node =
     (case DecodeEchonetMsg reg (payload node) of Inl e \<Rightarrow> Inl e | Inr rx \<Rightarrow>
     (case DEOJGC tx of None \<Rightarrow> Inl KeyError | Some gc \<Rightarrow>
     (if gc \<noteq> rx_SEOJGC rx then Inr None else
     (case TID tx of None \<Rightarrow> Inl KeyError | Some tid \<Rightarrow>
     (if rx_TID rx \<noteq> tid then Inr None else
     (case rx_OPC rx of [] \<Rightarrow> Inl IndexError | opc0 # _ \<Rightarrow>
     (if rx_EPC opc0 \<noteq> 0xd6 then Inr None else
     (case CODE_property tab (rx_SEOJGC rx) (rx_SEOJCC rx) (rx_EPC opc0) of
        None \<Rightarrow> Inl KeyError | Some f \<Rightarrow>
     (case f (rx_EDT opc0) of Inl e \<Rightarrow> Inl e | Inr edt \<Rightarrow>
     (let rx = rx\<lparr>rx_instance := Some (eojci edt)\<rparr> in
     (case CODE_class tab (eojgc edt) (eojcc edt) of
        None \<Rightarrow> Inl KeyError | Some cls \<Rightarrow>
     (case cls rx (fst (server node)) of Inl e \<Rightarrow> Inl e | Inr e \<Rightarrow> Inr (Some e)))))))))))))"

fun discover_loop ::
  "'dev epc_CODE \<Rightarrow> registry \<Rightarrow> request \<Rightarrow> reply list \<Rightarrow> 'dev list \<Rightarrow> error + 'dev list" where
  "discover_loop tab reg tx [] eoa = Inr eoa"
| "discover_loop tab reg tx (node # rest) eoa =
     (case discover_node tab reg tx node of
        Inl e \<Rightarrow> Inl e
      | Inr None \<Rightarrow> discover_loop tab reg tx rest eoa
      | Inr (Some e) \<Rightarrow> discover_loop tab reg tx rest (eoa @ [e]))"

definition Discover ::
  "'dev epc_CODE \<Rightarrow> registry \<Rightarrow> (nat \<Rightarrow> recv_event) \<Rightarrow> (error + 'dev list) option" where
  "Discover tab reg sock =
     (case BuildEchonetMsg reg tx_payload of
        (Inl e, tx) \<Rightarrow> Some (Inl e)
      | (Inr message, tx) \<Rightarrow>
         (case SendMessage message ENL_MULTICAST_ADDRESS sock of
            None \<Rightarrow> None
          | Some (Inl e) \<Rightarrow> Some (Inl e)
          | Some (Inr data) \<Rightarrow> Some (discover_loop tab reg tx data [])))"

section \<open>Sample environment\<close>

text \<open>
  A registry holding the table entries that the discovery request needs (Node-Profile group
  \<open>0x0E\<close> with class \<open>0xF0\<close>, service \<open>Get = 0x62\<close>, headers \<open>0x10\<close> and
  \<open>0x81\<close>) and one device class (\<open>0x01\<close>, \<open>0x30\<close>); and a socket on which a given
  list of datagrams arrives before the timeout.
\<close>

definition sample_registry :: registry where
  "sample_registry = \<lparr>GROUP = {0x0E, 0x01}, CLASS = [0x0E \<mapsto> {0xF0}, 0x01 \<mapsto> {0x30}],
     CODES = {0x62, 0x61}, EHD1 = {0x10}, EHD2 = {0x81, 0x82}\<rparr>"

definition socket_of :: "((string \<times> nat) \<times> byte list) list \<Rightarrow> nat \<Rightarrow> recv_event" where
  "socket_of arrivals k =
     (if k < length arrivals then Packet (fst (arrivals ! k)) (snd (arrivals ! k)) else Timeout)"

definition received :: "(string \<times> nat) \<times> byte list \<Rightarrow> reply" where
  "received a = \<lparr>server = fst a, payload = take 1024 (snd a)\<rparr>"

text \<open>The registry holds what the discovery request of \<open>Discover\<close> is validated
  against.\<close>

definition discovery_registered :: "registry \<Rightarrow> bool" where
  "discovery_registered reg =
     (0x0E \<in> GROUP reg \<and> (\<exists>classes. CLASS reg 0x0E = Some classes \<and> 0xF0 \<in> classes) \<and>
      0x62 \<in> CODES reg)"

text \<open>
  Sample collaborators: the property function of the Node-Profile instance list
  \<open>0xD6\<close> reads the first object of the list, and the constructor of class
  \<open>(0x01, 0x30)\<close> returns the sender's address with the instance code. A sample reply
  of a node profile to the discovery request, with a given low byte of the transaction
  id, and the frame it decodes to.
\<close>

definition sample_CODE :: "(string \<times> int option) epc_CODE" where
  "sample_CODE =
     \<lparr>CODE_property = (\<lambda>gc cc epc.
        if gc = 0x0E \<and> cc = 0xF0 \<and> epc = 0xD6 then
          Some (\<lambda>edt. if 4 \<le> length edt
                      then Inr \<lparr>eojgc = uint (edt ! 1), eojcc = uint (edt ! 2), eojci = uint (edt ! 3)\<rparr>
                      else Inl IndexError)
        else None),
      CODE_class = (\<lambda>gc cc.
        if gc = 0x01 \<and> cc = 0x30 then Some (\<lambda>rx ip. Inr (ip, rx_instance rx)) else None)\<rparr>"

definition node_profile_reply :: "byte \<Rightarrow> byte list" where
  "node_profile_reply tid_low =
     [0x10, 0x81, 0x00, tid_low, 0x0e, 0xf0, 0x01, 0x05, 0xff, 0x01,
      0x72, 0x01, 0xd6, 0x04, 0x01, 0x01, 0x30, 0x01]"

definition node_profile_frame :: "byte \<Rightarrow> rx_frame" where
  "node_profile_frame tid_low =
     \<lparr>rx_EHD1 = 0x10, rx_EHD2 = 0x81, rx_TID = uint tid_low,
      rx_SEOJGC = 0x0E, rx_SEOJCC = 0xF0, rx_SEOJIC = 0x01,
      rx_DEOJGC = 0x05, rx_DEOJCC = 0xFF, rx_DEOJIC = 0x01, rx_ESV = 0x72,
      rx_OPC = [\<lparr>rx_EPC = 0xD6, rx_PDC = 4, rx_EDT = [0x01, 0x01, 0x30, 0x01]\<rparr>],
      rx_instance = None\<rparr>"

section \<open>Wire format\<close>

text \<open>
  The frame layout of the ECHONET Lite specification, used to state what the encoder
  writes and the decoder reads: a 12-byte header (two header bytes, the transaction id in
  two bytes big-endian, the source object \<open>05 FF 01\<close>, the destination object, the
  service code, the property count), then for each property its code, its length and its
  payload bytes.

  A property is a pair of its code and its payload bytes. \<open>encodes_entry values p\<close>
  says that the dict \<open>values\<close> of the request's \<open>OPC\<close> list carries the property
  \<open>p\<close>: \<open>EPC\<close> is the code, \<open>PDC\<close> the number of payload bytes (missing or 0 when
  there is no payload) and \<open>EDT\<close> the payload read as one big-endian integer.
  \<open>decoded_entry p\<close> is the dict the decoder builds for \<open>p\<close>.
\<close>

definition encodes_entry :: "opc_entry \<Rightarrow> byte \<times> byte list \<Rightarrow> bool" where
  "encodes_entry values p =
     (EPC values = Some (uint (fst p)) \<and> length (snd p) \<le> 255 \<and>
      (if snd p = [] then PDC values = None \<or> PDC values = Some 0
       else PDC values = Some (int (length (snd p))) \<and>
            EDT values = Some (int_from_bytes (snd p))))"

definition entry_bytes :: "byte \<times> byte list \<Rightarrow> byte list" where
  "entry_bytes p = fst p # word_of_nat (length (snd p)) # snd p"

definition decoded_entry :: "byte \<times> byte list \<Rightarrow> rx_entry" where
  "decoded_entry p = \<lparr>rx_EPC = uint (fst p), rx_PDC = int (length (snd p)), rx_EDT = snd p\<rparr>"

definition frame_header :: "int \<Rightarrow> int \<Rightarrow> int \<Rightarrow> int \<Rightarrow> int \<Rightarrow> nat \<Rightarrow> byte list" where
  "frame_header tid gc cc ic sv n =
     [0x10, 0x81, word_of_int (tid div 256), word_of_int tid, 0x05, 0xFF, 0x01,
      word_of_int gc, word_of_int cc, word_of_int ic, word_of_int sv, word_of_nat n]"

definition frame_bytes ::
  "int \<Rightarrow> int \<Rightarrow> int \<Rightarrow> int \<Rightarrow> int \<Rightarrow> (byte \<times> byte list) list \<Rightarrow> byte list" where
  "frame_bytes tid gc cc ic sv props =
     frame_header tid gc cc ic sv (length props) @ concat (map entry_bytes props)"

text \<open>The text of a byte sequence: two lower-case hexadecimal digits per byte.\<close>

definition hex_of_bytes :: "byte list \<Rightarrow> string" where
  "hex_of_bytes bs = concat (map (\<lambda>b. [hexdigit (unat b div 16), hexdigit (unat b mod 16)]) bs)"

text \<open>A request with a payload whose first byte is zero, and a property without payload.\<close>

definition sample_request :: request where
  "sample_request = \<lparr>TID = Some 0x1234, DEOJGC = Some 0x01, DEOJCC = Some 0x30, DEOJIC = Some 0x01,
     ESV = Some 0x61,
     OPC = Some [\<lparr>EPC = Some 0x80, PDC = Some 2, EDT = Some 0x0030\<rparr>,
                 \<lparr>EPC = Some 0xD6, PDC = None, EDT = None\<rparr>]\<rparr>"

section \<open>Encoding: validation and the transaction id\<close>

lemmas build_defs = BuildEchonetMsg_def BuildEchonetMsg_try_def build_message_def

lemmas hex_eval = format_x_def hex_of_nat.simps hexdigit_def hexval_def is_space_def

lemma opc_append_error: "opc_append m v = Inl e \<Longrightarrow> e = KeyError"
  by (auto simp: opc_append_def Let_def split: option.splits if_splits)

lemma opc_loop_error: "opc_loop m vs = Inl e \<Longrightarrow> e = KeyError"
  by (induction vs arbitrary: m) (auto split: sum.splits dest: opc_append_error)

text \<open>
  Claim C10. For the request that \<open>Discover\<close> builds (TID 1, destination object
  \<open>(0x0E, 0xF0, 0x00)\<close>, service \<open>0x62\<close>, one property \<open>0xD6\<close> without payload),
  \<open>BuildEchonetMsg\<close> returns the hex string \<open>1081000105ff010ef0006201d600\<close>, which
  \<open>bytearray.fromhex\<close> reads as the 14 bytes 10 81 00 01 05 ff 01 0e f0 00 62 01 d6 00.
  The registry must hold the group, the class and the service code.
\<close>

theorem BuildEchonetMsg_discovery_message:
  assumes "0x0E \<in> GROUP reg" "CLASS reg 0x0E = Some classes" "0xF0 \<in> classes" "0x62 \<in> CODES reg"
  shows "fst (BuildEchonetMsg reg tx_payload) = Inr ''1081000105ff010ef0006201d600'' \<and>
         fromhex ''1081000105ff010ef0006201d600'' =
           Inr [0x10, 0x81, 0x00, 0x01, 0x05, 0xff, 0x01, 0x0e, 0xf0, 0x00, 0x62, 0x01, 0xd6, 0x00]"
  using assms
  by (simp add: build_defs tx_payload_def opc_append_def hex_eval)

theorem BuildEchonetMsg_discovery_message_witness:
  "fst (BuildEchonetMsg sample_registry tx_payload) = Inr ''1081000105ff010ef0006201d600'' \<and>
   fromhex ''1081000105ff010ef0006201d600'' =
     Inr [0x10, 0x81, 0x00, 0x01, 0x05, 0xff, 0x01, 0x0e, 0xf0, 0x00, 0x62, 0x01, 0xd6, 0x00]"
  by (rule BuildEchonetMsg_discovery_message [where classes = "{0xF0}"])
     (simp_all add: sample_registry_def)

text \<open>
  Claim C9. When the request dict has no \<open>TID\<close> key, \<open>BuildEchonetMsg\<close> leaves the
  caller's dict with \<open>TID = 1\<close> and every other key as it was, and encodes as if
  \<open>TID = 1\<close> had been given; when the key is there, the dict is returned unchanged. This
  holds whatever the call's outcome is.
\<close>

theorem BuildEchonetMsg_TID_default:
  "(TID data = None \<longrightarrow>
      snd (BuildEchonetMsg reg data) = data\<lparr>TID := Some 1\<rparr> \<and>
      fst (BuildEchonetMsg reg data) = fst (BuildEchonetMsg reg (data\<lparr>TID := Some 1\<rparr>))) \<and>
   (TID data \<noteq> None \<longrightarrow> snd (BuildEchonetMsg reg data) = data)"
  by (auto simp: build_defs split: option.splits sum.splits error.splits prod.splits)

theorem BuildEchonetMsg_TID_default_witness:
  "TID (tx_payload\<lparr>TID := None\<rparr>) = None \<and>
   snd (BuildEchonetMsg sample_registry (tx_payload\<lparr>TID := None\<rparr>)) = tx_payload \<and>
   fst (BuildEchonetMsg sample_registry (tx_payload\<lparr>TID := None\<rparr>)) =
     fst (BuildEchonetMsg sample_registry tx_payload) \<and>
   TID tx_payload \<noteq> None \<and>
   snd (BuildEchonetMsg sample_registry tx_payload) = tx_payload"
  using BuildEchonetMsg_TID_default [of "tx_payload\<lparr>TID := None\<rparr>" sample_registry]
    BuildEchonetMsg_TID_default [of tx_payload sample_registry]
  by (simp add: tx_payload_def)

text \<open>
  Claim C2, as the code has it. A failed validation raises \<open>ValueError\<close> inside the
  \<open>try\<close> block; the handler prints it and calls \<open>quit()\<close>. So the caller never sees
  a \<open>ValueError\<close>: the process ends, and it does so exactly when the transaction id is
  above \<open>0xFFFF\<close>, the group is not in \<open>eojx.GROUP\<close>, the class is not in the group's
  table, or the service code is not in \<open>esv.CODES\<close> (for a dict that has the four keys
  \<open>DEOJGC\<close>, \<open>DEOJCC\<close>, \<open>DEOJIC\<close>, \<open>ESV\<close>, and a class table for every
  registered group). A transaction id of \<open>0x10000\<close> always ends the process.
\<close>

theorem BuildEchonetMsg_quits_iff:
  "(TID data = Some 0x10000 \<longrightarrow> fst (BuildEchonetMsg reg data) = Inl SystemExit) \<and>
   fst (BuildEchonetMsg reg data) \<noteq> Inl ValueError \<and>
   (DEOJGC data = Some gc \<and> DEOJCC data = Some cc \<and> DEOJIC data = Some ic \<and> ESV data = Some sv \<and>
    (gc \<in> GROUP reg \<longrightarrow> CLASS reg gc \<noteq> None) \<longrightarrow>
      (fst (BuildEchonetMsg reg data) = Inl SystemExit \<longleftrightarrow>
         (\<exists>tid. TID data = Some tid \<and> tid > 0xFFFF) \<or> gc \<notin> GROUP reg \<or>
         (\<exists>classes. CLASS reg gc = Some classes \<and> cc \<notin> classes) \<or> sv \<notin> CODES reg))"
proof -
  have a: "TID data = Some 0x10000 \<longrightarrow> fst (BuildEchonetMsg reg data) = Inl SystemExit"
    by (simp add: BuildEchonetMsg_def BuildEchonetMsg_try_def)
  have ne: "build_message reg d tid \<noteq> Inl SystemExit" for d :: "'a request_scheme" and tid
    using opc_loop_error [where e = SystemExit]
    by (auto simp: build_message_def Let_def split: option.splits sum.splits)
  have b: "fst (BuildEchonetMsg reg data) \<noteq> Inl ValueError"
    by (auto simp: BuildEchonetMsg_def BuildEchonetMsg_try_def Let_def
             split: option.splits sum.splits error.splits prod.splits)
  have c: "fst (BuildEchonetMsg reg data) = Inl SystemExit \<longleftrightarrow>
         (\<exists>tid. TID data = Some tid \<and> tid > 0xFFFF) \<or> gc \<notin> GROUP reg \<or>
         (\<exists>classes. CLASS reg gc = Some classes \<and> cc \<notin> classes) \<or> sv \<notin> CODES reg"
    if h: "DEOJGC data = Some gc" "DEOJCC data = Some cc" "DEOJIC data = Some ic" "ESV data = Some sv"
      "gc \<in> GROUP reg \<longrightarrow> CLASS reg gc \<noteq> None"
  proof -
    have v: "build_message reg d tid = Inl ValueError \<longleftrightarrow>
        gc \<notin> GROUP reg \<or> (\<exists>classes. CLASS reg gc = Some classes \<and> cc \<notin> classes) \<or> sv \<notin> CODES reg"
      if "DEOJGC d = Some gc" "DEOJCC d = Some cc" "DEOJIC d = Some ic" "ESV d = Some sv"
      for d :: "'a request_scheme" and tid
      using that h(5) opc_loop_error [where e = ValueError]
      by (auto simp: build_message_def Let_def split: option.splits sum.splits)
    show ?thesis
    proof (cases "TID data")
      case None
      then show ?thesis
        using v [of "data\<lparr>TID := Some 1\<rparr>" 1] h ne [of "data\<lparr>TID := Some 1\<rparr>" 1]
        by (auto simp: BuildEchonetMsg_def BuildEchonetMsg_try_def Let_def
                 split: sum.splits error.splits)
    next
      case (Some tid)
      then show ?thesis
        using v [of data tid] h ne [of data tid]
        by (auto simp: BuildEchonetMsg_def BuildEchonetMsg_try_def Let_def
                 split: sum.splits error.splits)
    qed
  qed
  from a b c show ?thesis by blast
qed

theorem BuildEchonetMsg_quits_iff_witness:
  "DEOJGC (tx_payload\<lparr>DEOJGC := Some 0x02\<rparr>) = Some 0x02 \<and>
   DEOJCC (tx_payload\<lparr>DEOJGC := Some 0x02\<rparr>) = Some 0xF0 \<and>
   DEOJIC (tx_payload\<lparr>DEOJGC := Some 0x02\<rparr>) = Some 0x00 \<and>
   ESV (tx_payload\<lparr>DEOJGC := Some 0x02\<rparr>) = Some 0x62 \<and>
   0x02 \<notin> GROUP sample_registry \<and>
   fst (BuildEchonetMsg sample_registry (tx_payload\<lparr>DEOJGC := Some 0x02\<rparr>)) = Inl SystemExit \<and>
   fst (BuildEchonetMsg sample_registry (tx_payload\<lparr>DEOJGC := Some 0x02\<rparr>)) \<noteq> Inl ValueError"
  using BuildEchonetMsg_quits_iff
    [of "tx_payload\<lparr>DEOJGC := Some 0x02\<rparr>" sample_registry "0x02" "0xF0" "0x00" "0x62"]
  by (simp add: tx_payload_def sample_registry_def)

text \<open>
  The claim as the specification words it fails: with a transaction id of \<open>0x10000\<close> the
  call does not hand an error to its caller, it ends the process.
\<close>

theorem BuildEchonetMsg_surfaces_error_counterexample:
  "fst (BuildEchonetMsg sample_registry (tx_payload\<lparr>TID := Some 0x10000\<rparr>)) = Inl SystemExit \<and>
   fst (BuildEchonetMsg sample_registry (tx_payload\<lparr>TID := Some 0x10000\<rparr>)) \<noteq> Inl ValueError"
  by (simp add: BuildEchonetMsg_def BuildEchonetMsg_try_def tx_payload_def)

section \<open>Decoding short input\<close>

lemma decode_opc_short: "length byte < 12 \<Longrightarrow> decode_opc byte i p opc = Inl IndexError"
  by (subst decode_opc.simps) (simp add: byte_at_def)

lemmas decode_eval = DecodeEchonetMsg_def DecodeEchonetMsg_try_def byte_at_def decode_opc.simps
  byte_slice_def int_from_bytes_def

text \<open>
  Claim C3, as the code has it. \<open>DecodeEchonetMsg\<close> has no length check and catches
  \<open>ValueError\<close> only. On an input shorter than 12 bytes it never returns a frame: when a
  header byte is there and is not in \<open>epc.EHD1\<close> (or \<open>epc.EHD2\<close>) the process ends,
  and otherwise the \<open>IndexError\<close> of the first out-of-range index reaches the caller.
\<close>

theorem DecodeEchonetMsg_short_input:
  "length byte < 12 \<Longrightarrow>
     DecodeEchonetMsg reg byte =
       (if byte \<noteq> [] \<and> uint (byte ! 0) \<notin> EHD1 reg then Inl SystemExit
        else if 2 \<le> length byte \<and> uint (byte ! 1) \<notin> EHD2 reg then Inl SystemExit
        else Inl IndexError)"
  by (auto simp: DecodeEchonetMsg_def DecodeEchonetMsg_try_def byte_at_def decode_opc_short Let_def
      split: sum.splits error.splits)

theorem DecodeEchonetMsg_short_input_witness:
  "length [0x10, 0x81, 0x00 :: byte] < 12 \<and>
   DecodeEchonetMsg sample_registry [0x10, 0x81, 0x00] = Inl IndexError \<and>
   length [0x20, 0x81 :: byte] < 12 \<and>
   DecodeEchonetMsg sample_registry [0x20, 0x81] = Inl SystemExit"
  using DecodeEchonetMsg_short_input [of "[0x10, 0x81, 0x00]" sample_registry]
    DecodeEchonetMsg_short_input [of "[0x20, 0x81]" sample_registry]
  by (simp add: sample_registry_def)

text \<open>
  The claim as the specification words it fails: on the empty input the raw
  \<open>IndexError\<close> of \<open>byte[0]\<close> escapes.
\<close>

theorem DecodeEchonetMsg_short_input_counterexample:
  "DecodeEchonetMsg sample_registry [] = Inl IndexError"
  by (simp add: DecodeEchonetMsg_def DecodeEchonetMsg_try_def byte_at_def)

section \<open>Discovery\<close>

lemma build_tx_payload:
  "discovery_registered reg \<Longrightarrow>
     BuildEchonetMsg reg tx_payload = (Inr ''1081000105ff010ef0006201d600'', tx_payload)"
  by (auto simp: discovery_registered_def build_defs tx_payload_def opc_append_def hex_eval)

lemma fromhex_discovery:
  "fromhex ''1081000105ff010ef0006201d600'' =
     Inr [0x10, 0x81, 0x00, 0x01, 0x05, 0xff, 0x01, 0x0e, 0xf0, 0x00, 0x62, 0x01, 0xd6, 0x00]"
  by (simp add: hex_eval)

lemma SendMessage_discovery:
  "SendMessage ''1081000105ff010ef0006201d600'' ip_address sock = recv_loop sock 0 []"
  unfolding SendMessage_def fromhex_discovery by simp

lemma recv_loop_socket_of:
  "recv_loop (socket_of arrivals) k data = Some (Inr (data @ map received (drop k arrivals)))"
proof (induction "length arrivals - k" arbitrary: k data)
  case 0
  then show ?case
    by (subst recv_loop.simps) (simp add: socket_of_def)
next
  case (Suc n)
  then have k: "k < length arrivals" and n: "n = length arrivals - Suc k" by simp_all
  show ?case
    by (subst recv_loop.simps)
       (simp add: socket_of_def k Suc.hyps(1) [OF n] received_def Cons_nth_drop_Suc [OF k, symmetric])
qed

lemma Discover_socket_of:
  assumes "discovery_registered reg"
  shows "Discover tab reg (socket_of arrivals) =
       Some (discover_loop tab reg tx_payload (map received arrivals) [])"
  by (simp add: Discover_def build_tx_payload [OF assms] SendMessage_discovery recv_loop_socket_of)

lemma discover_loop_append:
  "discover_loop tab reg tx (xs @ ys) eoa =
     (case discover_loop tab reg tx xs eoa of
        Inl e \<Rightarrow> Inl e
      | Inr eoa' \<Rightarrow> discover_loop tab reg tx ys eoa')"
  by (induction xs arbitrary: eoa) (auto split: sum.splits option.splits)


lemma decode_node_profile_reply:
  "DecodeEchonetMsg sample_registry (take 1024 (node_profile_reply t)) = Inr (node_profile_frame t)"
  by (simp add: decode_eval node_profile_reply_def node_profile_frame_def sample_registry_def)

lemma discover_node_skip:
  assumes "DecodeEchonetMsg reg (payload node) = Inr rx"
    and "rx_SEOJGC rx \<noteq> 0x0E \<or> rx_TID rx \<noteq> 1 \<or> (rx_OPC rx \<noteq> [] \<and> rx_EPC (hd (rx_OPC rx)) \<noteq> 0xD6)"
  shows "discover_node tab reg tx_payload node = Inr None"
  using assms by (auto simp: discover_node_def tx_payload_def split: list.splits)

lemma discover_node_decode_error:
  "DecodeEchonetMsg reg (payload node) = Inl e \<Longrightarrow> discover_node tab reg tx node = Inl e"
  by (simp add: discover_node_def)

text \<open>
  Claim C7. When the first receive attempt times out, \<open>SendMessage\<close> returns the empty
  list and \<open>Discover\<close> returns the empty list of devices: the loop ends, no error is
  raised. (The registry holds the entries of the discovery request.)
\<close>

theorem Discover_no_replies:
  assumes "discovery_registered reg" and "sock 0 = Timeout"
  shows "SendMessage ''1081000105ff010ef0006201d600'' ENL_MULTICAST_ADDRESS sock = Some (Inr []) \<and>
         Discover tab reg sock = Some (Inr [])"
  by (simp add: Discover_def build_tx_payload [OF assms(1)] SendMessage_discovery
        recv_loop.simps [of sock 0] assms(2))

theorem Discover_no_replies_witness:
  "discovery_registered sample_registry \<and> socket_of [] 0 = Timeout \<and>
   SendMessage ''1081000105ff010ef0006201d600'' ENL_MULTICAST_ADDRESS (socket_of []) =
     Some (Inr []) \<and>
   Discover sample_CODE sample_registry (socket_of []) = Some (Inr [])"
proof -
  have reg: "discovery_registered sample_registry"
    by (simp add: discovery_registered_def sample_registry_def)
  have t: "socket_of [] 0 = Timeout"
    by (simp add: socket_of_def)
  show ?thesis
    using reg t Discover_no_replies [where reg = sample_registry and sock = "socket_of []"
        and tab = sample_CODE]
    by simp
qed

text \<open>
  Claim C6. Two replies arrive, in either order: one decodes to a frame with the request's
  transaction id 1, source group \<open>0x0E\<close> and first property code \<open>0xD6\<close>, and the
  collaborators of \<open>epc.CODE\<close> build a device from it; the other decodes to a frame with
  another transaction id. \<open>Discover\<close> returns exactly the one device, and no error.
\<close>

theorem Discover_two_replies:
  assumes "discovery_registered reg"
    and "DecodeEchonetMsg reg (take 1024 d1) = Inr rx1"
    and "rx_TID rx1 = 1" "rx_SEOJGC rx1 = 0x0E" "rx_OPC rx1 = opc0 # others" "rx_EPC opc0 = 0xD6"
    and "CODE_property tab 0x0E (rx_SEOJCC rx1) 0xD6 = Some f" "f (rx_EDT opc0) = Inr edt"
    and "CODE_class tab (eojgc edt) (eojcc edt) = Some cls"
    and "cls (rx1\<lparr>rx_instance := Some (eojci edt)\<rparr>) (fst s1) = Inr dev"
    and "DecodeEchonetMsg reg (take 1024 d2) = Inr rx2" "rx_TID rx2 \<noteq> 1"
  shows "Discover tab reg (socket_of [(s1, d1), (s2, d2)]) = Some (Inr [dev]) \<and>
         Discover tab reg (socket_of [(s2, d2), (s1, d1)]) = Some (Inr [dev])"
proof -
  have 1: "discover_node tab reg tx_payload (received (s1, d1)) = Inr (Some dev)"
    using assms(2-10) by (simp add: discover_node_def received_def tx_payload_def)
  have 2: "discover_node tab reg tx_payload (received (s2, d2)) = Inr None"
    using assms(11,12) by (simp add: discover_node_def received_def tx_payload_def)
  show ?thesis
    by (simp add: Discover_socket_of [OF assms(1)] 1 2)
qed


theorem Discover_two_replies_witness:
  "Discover sample_CODE sample_registry
     (socket_of [((''192.168.1.9'', 3610), node_profile_reply 1),
                 ((''192.168.1.7'', 3610), node_profile_reply 2)]) =
       Some (Inr [(''192.168.1.9'', Some 1)]) \<and>
   Discover sample_CODE sample_registry
     (socket_of [((''192.168.1.7'', 3610), node_profile_reply 2),
                 ((''192.168.1.9'', 3610), node_profile_reply 1)]) =
       Some (Inr [(''192.168.1.9'', Some 1)])"
proof -
  have reg: "discovery_registered sample_registry"
    by (simp add: discovery_registered_def sample_registry_def)
  show ?thesis
    by (rule Discover_two_replies [OF reg, where ?rx1.0 = "node_profile_frame 1"
          and ?rx2.0 = "node_profile_frame 2"
          and ?opc0.0 = "\<lparr>rx_EPC = 0xD6, rx_PDC = 4, rx_EDT = [0x01, 0x01, 0x30, 0x01]\<rparr>"
          and others = "[]"
          and f = "\<lambda>edt. if 4 \<le> length edt
                      then Inr \<lparr>eojgc = uint (edt ! 1), eojcc = uint (edt ! 2), eojci = uint (edt ! 3)\<rparr>
                      else Inl IndexError"
          and edt = "\<lparr>eojgc = 0x01, eojcc = 0x30, eojci = 0x01\<rparr>"
          and cls = "\<lambda>rx ip. Inr (ip, rx_instance rx)"])
       (simp_all add: decode_node_profile_reply node_profile_frame_def sample_CODE_def)
qed

text \<open>
  Claim C5, as the code has it. \<open>Discover\<close> has no handler of its own. A reply that
  decodes and fails the filter (source group, transaction id, or first property code) is
  skipped, and the result is as if it had not arrived. A reply on which decoding or the
  dispatch fails is not swallowed: once the replies before it have been processed,
  \<open>Discover\<close> ends with that error, whatever arrives after it; for an unregistered
  header byte the error is the end of the process.
\<close>

theorem Discover_reply_errors:
  assumes "discovery_registered reg"
  shows
   "(DecodeEchonetMsg reg (take 1024 (snd a)) = Inr rx \<and>
     (rx_SEOJGC rx \<noteq> 0x0E \<or> rx_TID rx \<noteq> 1 \<or> (rx_OPC rx \<noteq> [] \<and> rx_EPC (hd (rx_OPC rx)) \<noteq> 0xD6)) \<longrightarrow>
       Discover tab reg (socket_of (pre @ a # rest)) = Discover tab reg (socket_of (pre @ rest))) \<and>
    (Discover tab reg (socket_of pre) = Some (Inr eoa) \<and>
     DecodeEchonetMsg reg (take 1024 (snd a)) = Inl e \<longrightarrow>
       Discover tab reg (socket_of (pre @ a # rest)) = Some (Inl e)) \<and>
    (Discover tab reg (socket_of pre) = Some (Inr eoa) \<and>
     discover_node tab reg tx_payload (received a) = Inl e' \<longrightarrow>
       Discover tab reg (socket_of (pre @ a # rest)) = Some (Inl e'))"
proof -
  have skip: "Discover tab reg (socket_of (pre @ a # rest)) = Discover tab reg (socket_of (pre @ rest))"
    if "discover_node tab reg tx_payload (received a) = Inr None"
    using that by (simp add: Discover_socket_of [OF assms] discover_loop_append split: sum.splits)
  have stop: "Discover tab reg (socket_of (pre @ a # rest)) = Some (Inl x)"
    if "Discover tab reg (socket_of pre) = Some (Inr eoa)"
      and "discover_node tab reg tx_payload (received a) = Inl x" for x
    using that by (simp add: Discover_socket_of [OF assms] discover_loop_append)
  show ?thesis
    using skip stop discover_node_skip [of reg "received a" rx tab]
      discover_node_decode_error [of reg "received a" e tab tx_payload]
    by (auto simp: received_def)
qed

theorem Discover_reply_errors_witness:
  "discovery_registered sample_registry \<and>
   Discover sample_CODE sample_registry
     (socket_of ([] @ ((''192.168.1.7'', 3610), node_profile_reply 2) #
                 [((''192.168.1.9'', 3610), node_profile_reply 1)])) =
   Discover sample_CODE sample_registry
     (socket_of ([] @ [((''192.168.1.9'', 3610), node_profile_reply 1)])) \<and>
   Discover sample_CODE sample_registry
     (socket_of ([] @ ((''192.168.1.7'', 3610), [0x20, 0x81]) #
                 [((''192.168.1.9'', 3610), node_profile_reply 1)])) = Some (Inl SystemExit)"
proof -
  have reg: "discovery_registered sample_registry"
    by (simp add: discovery_registered_def sample_registry_def)
  have none: "Discover sample_CODE sample_registry (socket_of []) = Some (Inr [])"
    by (simp add: Discover_socket_of [OF reg])
  have bad: "DecodeEchonetMsg sample_registry (take 1024 [0x20, 0x81]) = Inl SystemExit"
    by (simp add: decode_eval sample_registry_def)
  have tid: "rx_TID (node_profile_frame 2) \<noteq> 1"
    by (simp add: node_profile_frame_def)
  show ?thesis
    using reg
      Discover_reply_errors [OF reg, where a = "((''192.168.1.7'', 3610), node_profile_reply 2)"
        and rx = "node_profile_frame 2" and tab = sample_CODE and pre = "[]"
        and rest = "[((''192.168.1.9'', 3610), node_profile_reply 1)]"]
      Discover_reply_errors [OF reg, where a = "((''192.168.1.7'', 3610), [0x20, 0x81])"
        and tab = sample_CODE and pre = "[]" and eoa = "[]" and e = SystemExit
        and rest = "[((''192.168.1.9'', 3610), node_profile_reply 1)]"]
      none bad tid decode_node_profile_reply [of 2]
    by simp
qed

text \<open>
  The claim as the specification words it fails: a truncated datagram ahead of a valid
  reply makes \<open>Discover\<close> raise \<open>IndexError\<close>, although the valid reply alone yields a
  device.
\<close>

theorem Discover_swallows_errors_counterexample:
  "Discover sample_CODE sample_registry
     (socket_of [((''192.168.1.7'', 3610), [0x10, 0x81, 0x00]),
                 ((''192.168.1.9'', 3610), node_profile_reply 1)]) = Some (Inl IndexError) \<and>
   Discover sample_CODE sample_registry
     (socket_of [((''192.168.1.9'', 3610), node_profile_reply 1)]) =
       Some (Inr [(''192.168.1.9'', Some 1)])"
proof -
  have reg: "discovery_registered sample_registry"
    by (simp add: discovery_registered_def sample_registry_def)
  have short: "DecodeEchonetMsg sample_registry [0x10, 0x81, 0x00] = Inl IndexError"
    by (simp add: decode_eval sample_registry_def)
  show ?thesis
    by (simp add: Discover_socket_of [OF reg] received_def discover_node_def short
          decode_node_profile_reply node_profile_frame_def tx_payload_def sample_CODE_def)
qed

section \<open>Hexadecimal text of a frame\<close>

lemma less_16_cases:
  "d < 16 \<Longrightarrow> d \<in> {0, 1, 2, 3, 4, 5, 6, 7, 8, 9, 10, 11, 12, 13, 14, 15::nat}"
  by simp arith

lemma hexval_hexdigit: "d < 16 \<Longrightarrow> hexval (hexdigit d) = Some d"
  by (drule less_16_cases) (auto simp: hexval_def hexdigit_def)

lemma not_space_hexdigit: "d < 16 \<Longrightarrow> \<not> is_space (hexdigit d)"
  by (drule less_16_cases) (auto simp: is_space_def hexdigit_def)

lemma byte_of_digits: "word_of_nat (16 * (unat b div 16) + unat b mod 16) = (b :: byte)"
  by simp

lemma fromhex_hex_of_bytes: "fromhex (hex_of_bytes bs) = Inr bs"
proof (induction bs)
  case Nil
  show ?case by (simp add: hex_of_bytes_def)
next
  case (Cons b bs)
  have "unat b div 16 < 16"
    using unsigned_less [of b, where ?'a = nat] by simp
  moreover have "unat b mod 16 < 16" by simp
  ultimately show ?case
    using Cons by (simp add: hex_of_bytes_def hexval_hexdigit not_space_hexdigit)
qed

lemma hex_of_nat_digit:
  "0 < m \<Longrightarrow> d < 16 \<Longrightarrow> hex_of_nat (16 * m + d) = hex_of_nat m @ [hexdigit d]"
  by (subst hex_of_nat.simps) simp

lemma hex_of_nat_byte:
  assumes "0 < n"
  shows "hex_of_nat (n * 256 + unat (b :: byte)) =
           hex_of_nat n @ [hexdigit (unat b div 16), hexdigit (unat b mod 16)]"
proof -
  have lt: "unat b div 16 < 16"
    using unsigned_less [of b, where ?'a = nat] by simp
  have "n * 256 + unat b = 16 * (16 * n + unat b div 16) + unat b mod 16"
    by simp
  then show ?thesis
    using assms lt by (simp only: hex_of_nat_digit) (simp add: hex_of_nat_digit)
qed

lemma int_from_bytes_snoc: "int_from_bytes (bs @ [b]) = int_from_bytes bs * 256 + uint b"
  by (simp add: int_from_bytes_def)

lemma int_from_bytes_nonneg: "0 \<le> int_from_bytes bs"
  by (induction bs rule: rev_induct) (simp_all add: int_from_bytes_snoc int_from_bytes_def)

lemma int_from_bytes_append:
  "int_from_bytes (xs @ ys) = int_from_bytes xs * 256 ^ length ys + int_from_bytes ys"
  by (induction ys rule: rev_induct)
     (simp_all add: int_from_bytes_snoc int_from_bytes_def algebra_simps flip: append_assoc)

lemma int_from_bytes_less: "int_from_bytes bs < 256 ^ length bs"
proof (induction bs rule: rev_induct)
  case Nil
  show ?case by (simp add: int_from_bytes_def)
next
  case (snoc b bs)
  have "uint b < 256"
    using uint_bounded [of b] by simp
  with snoc show ?case
    by (simp add: int_from_bytes_snoc)
qed

lemma hex_of_nat_bytes:
  "16 \<le> unat b \<Longrightarrow>
     hex_of_nat (nat (int_from_bytes (b # bs))) = hex_of_bytes (b # bs) \<and>
     0 < int_from_bytes (b # bs)"
proof (induction bs rule: rev_induct)
  case Nil
  have "unat b div 16 < 16"
    using unsigned_less [of b, where ?'a = nat] by simp
  with Nil have "hex_of_nat (unat b) = [hexdigit (unat b div 16), hexdigit (unat b mod 16)]"
    by (subst hex_of_nat.simps, subst hex_of_nat.simps) simp
  moreover have "0 < uint b"
    using Nil unat_eq_nat_uint [of b] by arith
  ultimately show ?case
    by (simp add: int_from_bytes_def hex_of_bytes_def)
next
  case (snoc x xs)
  then have ih: "hex_of_nat (nat (int_from_bytes (b # xs))) = hex_of_bytes (b # xs)"
    and pos: "0 < int_from_bytes (b # xs)" by simp_all
  have e: "int_from_bytes ((b # xs) @ [x]) = int_from_bytes (b # xs) * 256 + uint x"
    by (rule int_from_bytes_snoc)
  have "nat (int_from_bytes ((b # xs) @ [x])) = nat (int_from_bytes (b # xs)) * 256 + unat x"
    unfolding e using pos unat_eq_nat_uint [of x] uint_nonnegative [of x]
    by (simp add: nat_add_distrib nat_mult_distrib)
  moreover have "0 < nat (int_from_bytes (b # xs))"
    using pos by simp
  ultimately have "hex_of_nat (nat (int_from_bytes ((b # xs) @ [x]))) =
      hex_of_bytes (b # xs) @ [hexdigit (unat x div 16), hexdigit (unat x mod 16)]"
    using ih by (simp add: hex_of_nat_byte)
  moreover have "0 < int_from_bytes ((b # xs) @ [x])"
    unfolding e using pos by (simp add: add_pos_nonneg)
  ultimately show ?case
    by (simp add: hex_of_bytes_def)
qed

lemma fromhex_format_x:
  assumes "16 \<le> unat b"
  shows "fromhex (format_x (int_from_bytes (b # bs))) = Inr (b # bs)"
  using hex_of_nat_bytes [OF assms, of bs] fromhex_hex_of_bytes [of "b # bs"]
  by (simp add: format_x_def)


section \<open>The encoder writes the wire format\<close>

lemma uint_length_byte: "n \<le> 255 \<Longrightarrow> uint (word_of_nat n :: byte) = int n"
  by (simp add: unsigned_of_nat take_bit_nat_eq_self)

lemma uint_int_byte: "0 \<le> k \<Longrightarrow> k \<le> 255 \<Longrightarrow> uint (word_of_int k :: byte) = k"
  by (simp add: uint_word_of_int)

lemma opc_append_bytes:
  assumes "encodes_entry values p"
  shows "opc_append (int_from_bytes pre) values = Inr (int_from_bytes (pre @ entry_bytes p))"
proof (cases "snd p = []")
  case True
  with assms show ?thesis
    by (auto simp: encodes_entry_def opc_append_def entry_bytes_def push_bit_eq_mult
          int_from_bytes_append [of pre] int_from_bytes_def)
next
  case False
  from assms have len: "length (snd p) \<le> 255"
    by (simp add: encodes_entry_def)
  have pw: "(2::int) ^ (8 * length (snd p)) = 256 ^ length (snd p)"
    by (simp add: power_mult)
  have "int_from_bytes (pre @ entry_bytes p) =
      ((int_from_bytes pre * 256 + uint (fst p)) * 256 + int (length (snd p))) * 256 ^ length (snd p)
        + int_from_bytes (snd p)"
    using int_from_bytes_append [of "pre @ [fst p, word_of_nat (length (snd p))]" "snd p"]
      uint_length_byte [OF len]
    by (simp add: entry_bytes_def int_from_bytes_append [of pre] int_from_bytes_def)
  with False assms pw show ?thesis
    by (simp add: encodes_entry_def opc_append_def push_bit_eq_mult nat_mult_distrib)
qed

lemma opc_loop_bytes:
  "list_all2 encodes_entry vs ps \<Longrightarrow>
     opc_loop (int_from_bytes pre) vs = Inr (int_from_bytes (pre @ concat (map entry_bytes ps)))"
proof (induction vs ps arbitrary: pre rule: list_all2_induct)
  case Nil
  show ?case by simp
next
  case (Cons v vs p ps)
  show ?case
    using Cons.IH [of "pre @ entry_bytes p"] by (simp add: opc_append_bytes [OF Cons.hyps(1)])
qed


lemma int_from_bytes_header:
  assumes "0 \<le> tid" "tid \<le> 0xFFFF" "0 \<le> gc" "gc \<le> 0xFF" "0 \<le> cc" "cc \<le> 0xFF"
    "0 \<le> ic" "ic \<le> 0xFF" "0 \<le> sv" "sv \<le> 0xFF" "n \<le> 255"
  shows "int_from_bytes (frame_header tid gc cc ic sv n) =
     ((((((0x1081 * 2 ^ 16 + tid) * 2 ^ 24 + 0x05FF01) * 2 ^ 8 + gc) * 2 ^ 8 + cc) * 2 ^ 8 + ic)
        * 2 ^ 8 + sv) * 2 ^ 8 + int n"
proof -
  have hi: "uint (word_of_int (tid div 256) :: byte) = tid div 256"
    using assms(1,2) by (intro uint_int_byte) auto
  have lo: "uint (word_of_int tid :: byte) = tid mod 256"
    by (simp add: uint_word_of_int)
  have split: "tid = 256 * (tid div 256) + tid mod 256"
    by simp
  have "int_from_bytes (frame_header tid gc cc ic sv n) =
      ((((((((((0x10 * 256 + 0x81) * 256 + tid div 256) * 256 + tid mod 256) * 256 + 0x05) * 256
        + 0xFF) * 256 + 0x01) * 256 + gc) * 256 + cc) * 256 + ic) * 256 + sv) * 256 + int n"
    using assms by (simp add: frame_header_def int_from_bytes_def hi lo uint_int_byte uint_length_byte)
  also have "\<dots> = ((((((0x1081 * 2 ^ 16 + tid) * 2 ^ 24 + 0x05FF01) * 2 ^ 8 + gc) * 2 ^ 8 + cc)
        * 2 ^ 8 + ic) * 2 ^ 8 + sv) * 2 ^ 8 + int n"
    by (subst (3) split) simp
  finally show ?thesis .
qed

lemma build_message_bytes:
  assumes "0 \<le> tid" "tid \<le> 0xFFFF"
    and "DEOJGC data = Some gc" "gc \<in> GROUP reg" "0 \<le> gc" "gc \<le> 0xFF"
    and "DEOJCC data = Some cc" "CLASS reg gc = Some classes" "cc \<in> classes" "0 \<le> cc" "cc \<le> 0xFF"
    and "DEOJIC data = Some ic" "0 \<le> ic" "ic \<le> 0xFF"
    and "ESV data = Some sv" "sv \<in> CODES reg" "0 \<le> sv" "sv \<le> 0xFF"
    and "OPC data = Some opc" "length opc \<le> 255" "list_all2 encodes_entry opc props"
  shows "build_message reg data tid =
           Inr (format_x (int_from_bytes (frame_bytes tid gc cc ic sv props)))"
proof -
  have n: "length props = length opc"
    using assms(21) by (simp add: list_all2_lengthD)
  have h: "int_from_bytes (frame_header tid gc cc ic sv (length opc)) =
     ((((((0x1081 * 2 ^ 16 + tid) * 2 ^ 24 + 0x05FF01) * 2 ^ 8 + gc) * 2 ^ 8 + cc) * 2 ^ 8 + ic)
        * 2 ^ 8 + sv) * 2 ^ 8 + int (length opc)"
    using assms by (intro int_from_bytes_header) simp_all
  show ?thesis
    using assms(3,4,7,8,9,12,15,16,19)
      opc_loop_bytes [OF assms(21), of "frame_header tid gc cc ic sv (length opc)"]
    unfolding h
    by (simp add: build_message_def frame_bytes_def n push_bit_eq_mult)
qed


lemma BuildEchonetMsg_bytes:
  assumes "TID data = Some tid \<or> TID data = None \<and> tid = 1" "0 \<le> tid" "tid \<le> 0xFFFF"
    and "DEOJGC data = Some gc" "gc \<in> GROUP reg" "0 \<le> gc" "gc \<le> 0xFF"
    and "DEOJCC data = Some cc" "CLASS reg gc = Some classes" "cc \<in> classes" "0 \<le> cc" "cc \<le> 0xFF"
    and "DEOJIC data = Some ic" "0 \<le> ic" "ic \<le> 0xFF"
    and "ESV data = Some sv" "sv \<in> CODES reg" "0 \<le> sv" "sv \<le> 0xFF"
    and "OPC data = Some opc" "length opc \<le> 255" "list_all2 encodes_entry opc props"
  shows "fst (BuildEchonetMsg reg data) =
           Inr (format_x (int_from_bytes (frame_bytes tid gc cc ic sv props))) \<and>
         fromhex (format_x (int_from_bytes (frame_bytes tid gc cc ic sv props))) =
           Inr (frame_bytes tid gc cc ic sv props)"
proof -
  have b: "build_message reg d tid =
      Inr (format_x (int_from_bytes (frame_bytes tid gc cc ic sv props)))"
    if "DEOJGC d = Some gc" "DEOJCC d = Some cc" "DEOJIC d = Some ic" "ESV d = Some sv"
      "OPC d = Some opc" for d :: "'a request_scheme"
    using that assms(2,3,5-7,9-12,14,15,17-19,21,22) by (intro build_message_bytes) simp_all
  have 1: "fst (BuildEchonetMsg reg data) =
      Inr (format_x (int_from_bytes (frame_bytes tid gc cc ic sv props)))"
  proof (cases "TID data")
    case None
    with assms(1) have "tid = 1" by simp
    with None b [of "data\<lparr>TID := Some 1\<rparr>"] assms(4,8,13,16,20) show ?thesis
      by (simp add: BuildEchonetMsg_def BuildEchonetMsg_try_def)
  next
    case (Some t)
    with assms(1) have "t = tid" by simp
    with Some b [of data] assms(3,4,8,13,16,20) show ?thesis
      by (simp add: BuildEchonetMsg_def BuildEchonetMsg_try_def)
  qed
  have "frame_bytes tid gc cc ic sv props =
      0x10 # tl (frame_bytes tid gc cc ic sv props)"
    by (simp add: frame_bytes_def frame_header_def)
  then have 2: "fromhex (format_x (int_from_bytes (frame_bytes tid gc cc ic sv props))) =
      Inr (frame_bytes tid gc cc ic sv props)"
    using fromhex_format_x [of "0x10" "tl (frame_bytes tid gc cc ic sv props)"] by simp
  from 1 2 show ?thesis by simp
qed

lemma encodes_entry_length: "list_all2 encodes_entry opc props \<Longrightarrow> \<forall>p\<in>set props. length (snd p) \<le> 255"
  by (induction opc props rule: list_all2_induct) (simp_all add: encodes_entry_def)

text \<open>
  Claim C8, as the code has it. For every well-formed request the encoded frame has 12
  bytes of header, the property count being the twelfth of them, plus \<open>2 + length data\<close>
  bytes for each property.
\<close>

theorem BuildEchonetMsg_byte_count:
  assumes "TID data = Some tid \<or> TID data = None \<and> tid = 1" "0 \<le> tid" "tid \<le> 0xFFFF"
    and "DEOJGC data = Some gc" "gc \<in> GROUP reg" "0 \<le> gc" "gc \<le> 0xFF"
    and "DEOJCC data = Some cc" "CLASS reg gc = Some classes" "cc \<in> classes" "0 \<le> cc" "cc \<le> 0xFF"
    and "DEOJIC data = Some ic" "0 \<le> ic" "ic \<le> 0xFF"
    and "ESV data = Some sv" "sv \<in> CODES reg" "0 \<le> sv" "sv \<le> 0xFF"
    and "OPC data = Some opc" "length opc \<le> 255" "list_all2 encodes_entry opc props"
  shows "\<exists>message byte.
           fst (BuildEchonetMsg reg data) = Inr message \<and> fromhex message = Inr byte \<and>
           length byte = 12 + (\<Sum>p\<leftarrow>props. 2 + length (snd p))"
proof -
  have "length (concat (map entry_bytes ps)) = (\<Sum>p\<leftarrow>ps. 2 + length (snd p))" for ps
    by (induction ps) (simp_all add: entry_bytes_def)
  then have "length (frame_bytes tid gc cc ic sv props) = 12 + (\<Sum>p\<leftarrow>props. 2 + length (snd p))"
    by (simp add: frame_bytes_def frame_header_def)
  with BuildEchonetMsg_bytes [OF assms] show ?thesis
    by blast
qed


theorem BuildEchonetMsg_byte_count_witness:
  "\<exists>message byte.
     fst (BuildEchonetMsg sample_registry sample_request) = Inr message \<and>
     fromhex message = Inr byte \<and> length byte = 12 + ((2 + 2) + (2 + 0))"
  using BuildEchonetMsg_byte_count
    [where data = sample_request and reg = sample_registry and tid = "0x1234" and gc = "0x01"
       and cc = "0x30" and classes = "{0x30}" and ic = "0x01" and sv = "0x61"
       and opc = "[\<lparr>EPC = Some 0x80, PDC = Some 2, EDT = Some 0x0030\<rparr>,
                   \<lparr>EPC = Some 0xD6, PDC = None, EDT = None\<rparr>]"
       and props = "[(0x80, [0x00, 0x30]), (0xD6, [])]"]
  by (simp add: sample_request_def sample_registry_def encodes_entry_def int_from_bytes_def)

text \<open>
  The count as the specification words it (12 header bytes, one more byte for the
  property count, and \<open>2 + length data\<close> per property) is one too many: the discovery
  request has one property without payload and is 14 bytes long, not 15.
\<close>

theorem BuildEchonetMsg_byte_count_counterexample:
  "fst (BuildEchonetMsg sample_registry tx_payload) = Inr ''1081000105ff010ef0006201d600'' \<and>
   fromhex ''1081000105ff010ef0006201d600'' =
     Inr [0x10, 0x81, 0x00, 0x01, 0x05, 0xff, 0x01, 0x0e, 0xf0, 0x00, 0x62, 0x01, 0xd6, 0x00] \<and>
   length [0x10, 0x81, 0x00, 0x01, 0x05, 0xff, 0x01, 0x0e, 0xf0, 0x00, 0x62, 0x01, 0xd6, 0x00 :: byte]
     \<noteq> 12 + 1 + (2 + 0)"
  by (simp add: build_defs tx_payload_def sample_registry_def opc_append_def hex_eval)

section \<open>The decoder reads the wire format\<close>

lemma decode_opc_step:
  assumes "12 \<le> length pre" "length (snd p) \<le> 255" "int i < uint (pre ! 11)"
  shows "decode_opc (pre @ entry_bytes p @ rest) i (length pre) acc =
         decode_opc (pre @ entry_bytes p @ rest) (Suc i) (length pre + 2 + length (snd p))
           (acc @ [decoded_entry p])"
proof -
  let ?byte = "pre @ entry_bytes p @ rest"
  have n: "byte_at ?byte 11 = Inr (uint (pre ! 11))"
    using assms(1) by (simp add: byte_at_def nth_append)
  have c: "byte_at ?byte (length pre) = Inr (uint (fst p))"
    by (simp add: byte_at_def entry_bytes_def)
  have l: "byte_at ?byte (Suc (length pre)) = Inr (int (length (snd p)))"
    using uint_length_byte [OF assms(2)] by (simp add: byte_at_def entry_bytes_def nth_append)
  have d: "byte_slice ?byte (Suc (Suc (length pre))) (Suc (Suc (length pre + length (snd p)))) = snd p"
    by (simp add: byte_slice_def entry_bytes_def)
  show ?thesis
    by (subst decode_opc.simps [of ?byte i]) (simp add: n c l d assms(3) decoded_entry_def)
qed

lemma decode_opc_advance:
  assumes "12 \<le> length pre" "\<forall>p\<in>set ps. length (snd p) \<le> 255"
    "int (i + length ps) \<le> uint (pre ! 11)"
  shows "decode_opc (pre @ concat (map entry_bytes ps) @ rest) i (length pre) acc =
         decode_opc (pre @ concat (map entry_bytes ps) @ rest) (i + length ps)
           (length pre + length (concat (map entry_bytes ps))) (acc @ map decoded_entry ps)"
  using assms
proof (induction ps arbitrary: pre i acc)
  case Nil
  show ?case by simp
next
  case (Cons p ps)
  have len: "length (entry_bytes p) = 2 + length (snd p)"
    by (simp add: entry_bytes_def)
  have "decode_opc (pre @ entry_bytes p @ concat (map entry_bytes ps) @ rest) i (length pre) acc =
        decode_opc (pre @ entry_bytes p @ concat (map entry_bytes ps) @ rest) (Suc i)
          (length pre + 2 + length (snd p)) (acc @ [decoded_entry p])"
    using Cons.prems by (intro decode_opc_step) auto
  also have "\<dots> =
        decode_opc ((pre @ entry_bytes p) @ concat (map entry_bytes ps) @ rest) (Suc i + length ps)
          (length (pre @ entry_bytes p) + length (concat (map entry_bytes ps)))
          ((acc @ [decoded_entry p]) @ map decoded_entry ps)"
    using Cons.IH [of "pre @ entry_bytes p" "Suc i" "acc @ [decoded_entry p]"] Cons.prems
    by (simp add: len nth_append)
  finally show ?case
    by (simp add: len add.assoc)
qed

lemma decode_opc_done:
  "12 \<le> length byte \<Longrightarrow> int i = uint (byte ! 11) \<Longrightarrow> decode_opc byte i p acc = Inr acc"
  by (subst decode_opc.simps) (simp add: byte_at_def)

lemma DecodeEchonetMsg_frame_bytes:
  assumes "0 \<le> tid" "tid \<le> 0xFFFF" "0 \<le> gc" "gc \<le> 0xFF" "0 \<le> cc" "cc \<le> 0xFF"
    "0 \<le> ic" "ic \<le> 0xFF" "0 \<le> sv" "sv \<le> 0xFF" "length props \<le> 255"
    "\<forall>p\<in>set props. length (snd p) \<le> 255" "0x10 \<in> EHD1 reg" "0x81 \<in> EHD2 reg"
  shows "DecodeEchonetMsg reg (frame_bytes tid gc cc ic sv props) =
     Inr \<lparr>rx_EHD1 = 0x10, rx_EHD2 = 0x81, rx_TID = tid,
          rx_SEOJGC = 0x05, rx_SEOJCC = 0xFF, rx_SEOJIC = 0x01,
          rx_DEOJGC = gc, rx_DEOJCC = cc, rx_DEOJIC = ic, rx_ESV = sv,
          rx_OPC = map decoded_entry props, rx_instance = None\<rparr>"
proof -
  let ?h = "frame_header tid gc cc ic sv (length props)"
  let ?byte = "frame_bytes tid gc cc ic sv props"
  have lh: "length ?h = 12"
    by (simp add: frame_header_def)
  have n: "uint (?h ! 11) = int (length props)"
    using uint_length_byte [OF assms(11)] by (simp add: frame_header_def)
  have "decode_opc (?h @ concat (map entry_bytes props) @ []) 0 (length ?h) [] =
        decode_opc (?h @ concat (map entry_bytes props) @ []) (0 + length props)
          (length ?h + length (concat (map entry_bytes props))) ([] @ map decoded_entry props)"
    using assms(12) n lh by (intro decode_opc_advance) simp_all
  also have "\<dots> = Inr (map decoded_entry props)"
    using n lh
      decode_opc_done [of "?h @ concat (map entry_bytes props)" "length props"
        "12 + length (concat (map entry_bytes props))" "map decoded_entry props"]
    by (simp add: nth_append)
  finally have opc: "decode_opc ?byte 0 12 [] = Inr (map decoded_entry props)"
    by (simp add: frame_bytes_def lh)
  have hi: "uint (word_of_int (tid div 256) :: byte) = tid div 256"
    using assms(1,2) by (intro uint_int_byte) auto
  have lo: "uint (word_of_int tid :: byte) = tid mod 256"
    by (simp add: uint_word_of_int)
  have tid: "int_from_bytes (byte_slice ?byte 2 4) = tid"
    by (simp add: frame_bytes_def frame_header_def byte_slice_def int_from_bytes_def hi lo)
  have at: "k < 12 \<Longrightarrow> byte_at ?byte k = Inr (uint (?h ! k))" for k
    by (simp add: byte_at_def frame_bytes_def lh nth_append)
  show ?thesis
    using assms(3-10,13,14)
    by (simp add: DecodeEchonetMsg_def DecodeEchonetMsg_try_def at opc tid)
       (simp add: frame_header_def uint_int_byte)
qed

lemma decode_opc_past_end:
  "11 < length byte \<Longrightarrow> int i < uint (byte ! 11) \<Longrightarrow> length byte \<le> q \<Longrightarrow>
     decode_opc byte i q acc = Inl IndexError"
  by (subst decode_opc.simps) (simp add: byte_at_def)

text \<open>
  Claim C1. A well-formed request: a transaction id in \<open>0 .. 0xFFFF\<close> (or none, which
  stands for 1), registered group, class and service code, every code a byte, at most 255
  properties, each with at most 255 payload bytes and \<open>PDC\<close> their number. Then
  \<open>BuildEchonetMsg\<close> returns a hex string, \<open>bytearray.fromhex\<close> reads it as bytes, and
  \<open>DecodeEchonetMsg\<close> on these bytes returns every field of the request: the header
  bytes \<open>0x10\<close>, \<open>0x81\<close> (which the header registry must hold), the transaction id,
  the source object \<open>05 FF 01\<close>, the destination object, the service code, and for each
  property its code, its length and its payload bytes, leading zero bytes included.
\<close>

theorem BuildEchonetMsg_DecodeEchonetMsg_roundtrip:
  assumes "TID data = Some tid \<or> TID data = None \<and> tid = 1" "0 \<le> tid" "tid \<le> 0xFFFF"
    and "DEOJGC data = Some gc" "gc \<in> GROUP reg" "0 \<le> gc" "gc \<le> 0xFF"
    and "DEOJCC data = Some cc" "CLASS reg gc = Some classes" "cc \<in> classes" "0 \<le> cc" "cc \<le> 0xFF"
    and "DEOJIC data = Some ic" "0 \<le> ic" "ic \<le> 0xFF"
    and "ESV data = Some sv" "sv \<in> CODES reg" "0 \<le> sv" "sv \<le> 0xFF"
    and "OPC data = Some opc" "length opc \<le> 255" "list_all2 encodes_entry opc props"
    and "0x10 \<in> EHD1 reg" "0x81 \<in> EHD2 reg"
  shows "\<exists>message byte.
           fst (BuildEchonetMsg reg data) = Inr message \<and> fromhex message = Inr byte \<and>
           DecodeEchonetMsg reg byte =
             Inr \<lparr>rx_EHD1 = 0x10, rx_EHD2 = 0x81, rx_TID = tid,
                  rx_SEOJGC = 0x05, rx_SEOJCC = 0xFF, rx_SEOJIC = 0x01,
                  rx_DEOJGC = gc, rx_DEOJCC = cc, rx_DEOJIC = ic, rx_ESV = sv,
                  rx_OPC = map decoded_entry props, rx_instance = None\<rparr>"
proof -
  have n: "length props \<le> 255"
    using assms(21,22) by (simp add: list_all2_lengthD)
  have "DecodeEchonetMsg reg (frame_bytes tid gc cc ic sv props) =
             Inr \<lparr>rx_EHD1 = 0x10, rx_EHD2 = 0x81, rx_TID = tid,
                  rx_SEOJGC = 0x05, rx_SEOJCC = 0xFF, rx_SEOJIC = 0x01,
                  rx_DEOJGC = gc, rx_DEOJCC = cc, rx_DEOJIC = ic, rx_ESV = sv,
                  rx_OPC = map decoded_entry props, rx_instance = None\<rparr>"
    using assms(2,3,6,7,11,12,14,15,18,19,23,24) n encodes_entry_length [OF assms(22)]
    by (intro DecodeEchonetMsg_frame_bytes) simp_all
  with BuildEchonetMsg_bytes [OF assms(1-22)] show ?thesis
    by blast
qed

theorem BuildEchonetMsg_DecodeEchonetMsg_roundtrip_witness:
  "\<exists>message byte.
     fst (BuildEchonetMsg sample_registry sample_request) = Inr message \<and>
     fromhex message = Inr byte \<and>
     DecodeEchonetMsg sample_registry byte =
       Inr \<lparr>rx_EHD1 = 0x10, rx_EHD2 = 0x81, rx_TID = 0x1234,
            rx_SEOJGC = 0x05, rx_SEOJCC = 0xFF, rx_SEOJIC = 0x01,
            rx_DEOJGC = 0x01, rx_DEOJCC = 0x30, rx_DEOJIC = 0x01, rx_ESV = 0x61,
            rx_OPC = [\<lparr>rx_EPC = 0x80, rx_PDC = 2, rx_EDT = [0x00, 0x30]\<rparr>,
                      \<lparr>rx_EPC = 0xD6, rx_PDC = 0, rx_EDT = []\<rparr>],
            rx_instance = None\<rparr>"
  using BuildEchonetMsg_DecodeEchonetMsg_roundtrip
    [where data = sample_request and reg = sample_registry and tid = "0x1234" and gc = "0x01"
       and cc = "0x30" and classes = "{0x30}" and ic = "0x01" and sv = "0x61"
       and opc = "[\<lparr>EPC = Some 0x80, PDC = Some 2, EDT = Some 0x0030\<rparr>,
                   \<lparr>EPC = Some 0xD6, PDC = None, EDT = None\<rparr>]"
       and props = "[(0x80, [0x00, 0x30]), (0xD6, [])]"]
  by (simp add: sample_request_def sample_registry_def encodes_entry_def int_from_bytes_def
        decoded_entry_def)

text \<open>
  Claim C4, as the code has it. The input has a 12-byte header with registered header
  bytes, then some complete properties, fewer than the header's count declares. When
  fewer than two bytes follow, the code or the length byte of the next property is
  missing; when a property follows whose payload is cut short and it is not the last one
  declared, the next property's code is missing. In both cases the index is out of range
  and the raw \<open>IndexError\<close> reaches the caller: no frame is returned.
\<close>

theorem DecodeEchonetMsg_truncated:
  assumes "length hdr = 12" "uint (hdr ! 0) \<in> EHD1 reg" "uint (hdr ! 1) \<in> EHD2 reg"
    and "\<forall>p\<in>set ps. length (snd p) \<le> 255" "int (length ps) < uint (hdr ! 11)"
  shows "(length rest < 2 \<longrightarrow>
            DecodeEchonetMsg reg (hdr @ concat (map entry_bytes ps) @ rest) = Inl IndexError) \<and>
         (int (length ps) + 1 < uint (hdr ! 11) \<and> length partial < unat l \<longrightarrow>
            DecodeEchonetMsg reg (hdr @ concat (map entry_bytes ps) @ c # l # partial) =
              Inl IndexError)"
proof -
  have hd: "DecodeEchonetMsg reg (hdr @ tail) = Inl IndexError"
    if "decode_opc (hdr @ tail) 0 12 [] = Inl IndexError" for tail
  proof -
    have "byte_at (hdr @ tail) k = Inr (uint (hdr ! k))" if "k < 12" for k
      using that assms(1) by (simp add: byte_at_def nth_append)
    then show ?thesis
      using assms(2,3) that by (simp add: DecodeEchonetMsg_def DecodeEchonetMsg_try_def)
  qed
  have adv: "decode_opc (hdr @ concat (map entry_bytes ps) @ tail) 0 12 [] =
      decode_opc (hdr @ concat (map entry_bytes ps) @ tail) (length ps)
        (12 + length (concat (map entry_bytes ps))) (map decoded_entry ps)" for tail
    using decode_opc_advance [of hdr ps 0 tail "[]"] assms(1,4,5) by simp
  let ?p = "12 + length (concat (map entry_bytes ps))"
  have n: "byte_at (hdr @ concat (map entry_bytes ps) @ tail) 11 = Inr (uint (hdr ! 11))" for tail
    using assms(1) by (simp add: byte_at_def nth_append)
  have a: "decode_opc (hdr @ concat (map entry_bytes ps) @ rest) (length ps) ?p acc = Inl IndexError"
    if "length rest < 2" for acc
    using that assms(1,5)
    by (subst decode_opc.simps) (auto simp: byte_at_def nth_append Let_def split: sum.splits)
  have b: "decode_opc (hdr @ concat (map entry_bytes ps) @ c # l # partial) (length ps) ?p acc =
      Inl IndexError"
    if "int (length ps) + 1 < uint (hdr ! 11)" "length partial < unat l" for acc
  proof -
    let ?byte = "hdr @ concat (map entry_bytes ps) @ c # l # partial"
    have e: "byte_at ?byte (12 + length (concat (map entry_bytes ps))) = Inr (uint c)"
      using assms(1) by (simp add: byte_at_def nth_append)
    have f: "byte_at ?byte (13 + length (concat (map entry_bytes ps))) = Inr (uint l)"
      using assms(1) by (simp add: byte_at_def nth_append)
    show ?thesis
      using assms(1,5) that
      by (subst decode_opc.simps) (simp add: n e f Let_def decode_opc_past_end nth_append)
  qed
  show ?thesis
    using hd [of "concat (map entry_bytes ps) @ rest"] adv [of rest] a
      hd [of "concat (map entry_bytes ps) @ c # l # partial"] adv [of "c # l # partial"] b
    by simp
qed

theorem DecodeEchonetMsg_truncated_witness:
  "DecodeEchonetMsg sample_registry
     [0x10, 0x81, 0x00, 0x01, 0x0e, 0xf0, 0x01, 0x05, 0xff, 0x01, 0x72, 0x02,
      0xd6, 0x04, 0x01, 0x01, 0x30, 0x01, 0x80] = Inl IndexError \<and>
   DecodeEchonetMsg sample_registry
     [0x10, 0x81, 0x00, 0x01, 0x0e, 0xf0, 0x01, 0x05, 0xff, 0x01, 0x72, 0x02,
      0xd6, 0x04, 0x01] = Inl IndexError"
  using DecodeEchonetMsg_truncated
    [where hdr = "[0x10, 0x81, 0x00, 0x01, 0x0e, 0xf0, 0x01, 0x05, 0xff, 0x01, 0x72, 0x02]"
       and reg = sample_registry and ps = "[(0xd6, [0x01, 0x01, 0x30, 0x01])]"
       and rest = "[0x80]" and partial = "[]" and l = "0x00" and c = "0x00"]
    DecodeEchonetMsg_truncated
    [where hdr = "[0x10, 0x81, 0x00, 0x01, 0x0e, 0xf0, 0x01, 0x05, 0xff, 0x01, 0x72, 0x02]"
       and reg = sample_registry and ps = "[]"
       and rest = "[]" and partial = "[0x01]" and l = "0x04" and c = "0xd6"]
  by (simp add: entry_bytes_def sample_registry_def)

text \<open>
  The claim as the specification words it fails where the declared payload of the last
  property runs past the end of the input: the slice is cut at the end and a frame is
  returned. Here the property declares 5 payload bytes and 1 is there.
\<close>

theorem DecodeEchonetMsg_truncated_counterexample:
  "DecodeEchonetMsg sample_registry
     [0x10, 0x81, 0x00, 0x01, 0x0e, 0xf0, 0x01, 0x05, 0xff, 0x01, 0x72, 0x01,
      0xd6, 0x05, 0x01] =
   Inr \<lparr>rx_EHD1 = 0x10, rx_EHD2 = 0x81, rx_TID = 0x01,
        rx_SEOJGC = 0x0E, rx_SEOJCC = 0xF0, rx_SEOJIC = 0x01,
        rx_DEOJGC = 0x05, rx_DEOJCC = 0xFF, rx_DEOJIC = 0x01, rx_ESV = 0x72,
        rx_OPC = [\<lparr>rx_EPC = 0xD6, rx_PDC = 5, rx_EDT = [0x01]\<rparr>],
        rx_instance = None\<rparr>"
  by (simp add: decode_eval sample_registry_def)

end
